theory Spec2Isabelle
  imports Main "HOL-Library.Char_ord" "HOL-Library.List_Lexorder"
begin

text \<open>
  A model of \<open>webserver.go\<close>: the cookie setter and the three handlers, each as a function
  from the response writer it is given (and the request, and for the home page the file
  system) to the response writer it leaves behind. The parts of the Go library the
  handlers call are modelled beside them, as far as the handlers use them. What is
  observed is what a handler writes: status, sent headers and body bytes.
\<close>

section \<open>Bytes and strings\<close>

text \<open>
  A Go string is a sequence of bytes, and so is a HOL \<open>string\<close>. The three bytes that cannot
  be written inside a HOL string literal get names.
\<close>

abbreviation dq :: char where "dq \<equiv> CHR 0x22"

abbreviation bs :: char where "bs \<equiv> CHR 0x5C"

abbreviation nl :: char where "nl \<equiv> CHR 0x0A"

definition byte :: "char \<Rightarrow> nat" where
  "byte c = of_char c"

definition in_range :: "char \<Rightarrow> nat \<Rightarrow> nat \<Rightarrow> bool" where
  "in_range c lo hi = (lo \<le> byte c \<and> byte c \<le> hi)"

definition is_digit :: "char \<Rightarrow> bool" where
  "is_digit c = in_range c 0x30 0x39"

definition is_upper :: "char \<Rightarrow> bool" where
  "is_upper c = in_range c 0x41 0x5A"

definition is_lower :: "char \<Rightarrow> bool" where
  "is_lower c = in_range c 0x61 0x7A"

definition hex :: "nat \<Rightarrow> char" where
  "hex n = ''0123456789abcdef'' ! (n mod 16)"

section \<open>The response writer of net/http\<close>

text \<open>
  \<open>http.Header\<close> is a \<open>map[string][]string\<close> whose keys are stored in canonical form.
  \<open>CanonicalMIMEHeaderKey\<close> leaves a key with a byte outside the token alphabet as it is;
  otherwise the first letter and every letter after a dash become upper case and all other
  letters lower case.
\<close>

type_synonym Header = "string \<rightharpoonup> string list"

definition isTokenByte :: "char \<Rightarrow> bool" where
  "isTokenByte c =
     (is_digit c \<or> is_upper c \<or> is_lower c \<or>
      c \<in> set (CHR 0x27 # ''!#$%&*+-.^_`|~''))"

fun canonicalKey :: "bool \<Rightarrow> string \<Rightarrow> string" where
  "canonicalKey upper [] = []"
| "canonicalKey upper (c # cs) =
     (let c' = (if upper \<and> is_lower c then char_of (byte c - 32)
                else if \<not> upper \<and> is_upper c then char_of (byte c + 32)
                else c)
      in c' # canonicalKey (c' = CHR ''-'') cs)"

definition CanonicalMIMEHeaderKey :: "string \<Rightarrow> string" where
  "CanonicalMIMEHeaderKey s = (if list_all isTokenByte s then canonicalKey True s else s)"

definition Header_Add :: "Header \<Rightarrow> string \<Rightarrow> string \<Rightarrow> Header" where
  "Header_Add h key v =
     (let k = CanonicalMIMEHeaderKey key
      in h(k \<mapsto> (case h k of None \<Rightarrow> [v] | Some vs \<Rightarrow> vs @ [v])))"

definition Header_Set :: "Header \<Rightarrow> string \<Rightarrow> string \<Rightarrow> Header" where
  "Header_Set h key v = h(CanonicalMIMEHeaderKey key \<mapsto> [v])"

definition Header_Del :: "Header \<Rightarrow> string \<Rightarrow> Header" where
  "Header_Del h key = h(CanonicalMIMEHeaderKey key := None)"

text \<open>
  The state of an \<open>http.ResponseWriter\<close>: the header map the handler edits
  (\<open>handlerHeader\<close>), whether the status line has been written, the status, the snapshot of
  the header map taken at that moment (\<open>sentHeader\<close>: what the client receives; later edits
  of \<open>handlerHeader\<close> are not sent), and the bytes written to the body so far.
\<close>

record response =
  handlerHeader :: Header
  wroteHeader :: bool
  status :: nat
  sentHeader :: Header
  body :: string

definition new_response :: response where
  "new_response =
     \<lparr>handlerHeader = Map.empty, wroteHeader = False, status = 0,
      sentHeader = Map.empty, body = []\<rparr>"

text \<open>
  \<open>WriteHeader\<close> fixes status and headers once; a second call changes nothing (the server
  logs a superfluous call). The source only passes the codes 404 and 500, and 200 is
  implied by the first \<open>Write\<close>.
\<close>

definition WriteHeader :: "nat \<Rightarrow> response \<Rightarrow> response" where
  "WriteHeader code w =
     (if wroteHeader w then w
      else w\<lparr>wroteHeader := True, status := code, sentHeader := handlerHeader w\<rparr>)"

definition Write :: "string \<Rightarrow> response \<Rightarrow> response" where
  "Write p w =
     (let w' = (if wroteHeader w then w else WriteHeader 200 w)
      in w'\<lparr>body := body w' @ p\<rparr>)"

text \<open>
  \<open>fmt.Fprint\<close>, \<open>fmt.Fprintf\<close> and \<open>fmt.Fprintln\<close> format their arguments and hand the
  bytes to \<open>Write\<close> in one call; the formatted text is built by the caller here.
\<close>

definition Fprint :: "response \<Rightarrow> string \<Rightarrow> response" where
  "Fprint w s = Write s w"

text \<open>
  \<open>http.Error\<close>: drops \<open>Content-Length\<close>, sets the content type of the error text, writes
  the status and prints the message with \<open>Fprintln\<close>, that is, followed by a newline.
\<close>

definition http_Error :: "response \<Rightarrow> string \<Rightarrow> nat \<Rightarrow> response" where
  "http_Error w err code =
     (let h = Header_Del (handlerHeader w) ''Content-Length'';
          h = Header_Set h ''Content-Type'' ''text/plain; charset=utf-8'';
          h = Header_Set h ''X-Content-Type-Options'' ''nosniff'';
          w = WriteHeader code (w\<lparr>handlerHeader := h\<rparr>)
      in Fprint w (err @ [nl]))"

section \<open>Cookies\<close>

text \<open>
  An \<open>http.Cookie\<close> with the two fields the program uses. \<open>Cookie.String\<close> is empty for an
  invalid name; the value loses the bytes a cookie value cannot hold and is quoted when it
  has a space or a comma.
\<close>

record Cookie =
  Name :: string
  Value :: string

definition isCookieNameValid :: "string \<Rightarrow> bool" where
  "isCookieNameValid raw = (raw \<noteq> [] \<and> list_all isTokenByte raw)"

definition validCookieValueByte :: "char \<Rightarrow> bool" where
  "validCookieValueByte b =
     (0x20 \<le> byte b \<and> byte b < 0x7F \<and> b \<noteq> dq \<and> b \<noteq> CHR '';'' \<and> b \<noteq> bs)"

definition sanitizeCookieValue :: "string \<Rightarrow> string" where
  "sanitizeCookieValue v =
     (let v' = filter validCookieValueByte v
      in if CHR '' '' \<in> set v' \<or> CHR '','' \<in> set v' then dq # v' @ [dq] else v')"

definition Cookie_String :: "Cookie \<Rightarrow> string" where
  "Cookie_String c =
     (if \<not> isCookieNameValid (Name c) then []
      else Name c @ ''='' @ sanitizeCookieValue (Value c))"

definition SetCookie :: "response \<Rightarrow> Cookie \<Rightarrow> response" where
  "SetCookie w cookie =
     (let v = Cookie_String cookie
      in if v \<noteq> [] then w\<lparr>handlerHeader := Header_Add (handlerHeader w) ''Set-Cookie'' v\<rparr>
         else w)"

definition SetMyCookie :: "response \<Rightarrow> response" where
  "SetMyCookie response =
     (let cookie = \<lparr>Name = ''testcookiename'', Value = ''testcookievalue''\<rparr>
      in SetCookie response cookie)"

section \<open>Requests\<close>

text \<open>
  The fields of \<open>http.Request\<close> the handlers read, as the server fills them in:
  the method, the request target as sent (\<open>RequestURI\<close>), the decoded path and the raw
  query of the parsed URL, the url-encoded body of a form submission, if there is one
  (\<open>PostBody\<close>), and the cookies the client sent (what \<open>request.Cookies()\<close> returns).
\<close>

record Request =
  Method :: string
  RequestURI :: string
  URL_Path :: string
  URL_RawQuery :: string
  PostBody :: "string option"
  Cookies :: "Cookie list"

section \<open>The pattern of the item route\<close>

text \<open>
  \<open>regexp.MustCompile(`^/item/(\w+)$`)\<close>. Go's \<open>\w\<close> is the ASCII class \<open>[0-9A-Za-z_]\<close>;
  without the multi-line flag \<open>^\<close> and \<open>$\<close> match at the two ends of the text only. So
  \<open>FindStringSubmatch\<close> returns the whole text and the part after \<open>/item/\<close> when that part
  is one or more word bytes, and \<open>nil\<close> (the empty list) otherwise.
\<close>

definition is_word :: "char \<Rightarrow> bool" where
  "is_word c = (is_digit c \<or> is_upper c \<or> is_lower c \<or> c = CHR ''_'')"

fun strip_prefix :: "string \<Rightarrow> string \<Rightarrow> string option" where
  "strip_prefix [] s = Some s"
| "strip_prefix (p # ps) [] = None"
| "strip_prefix (p # ps) (c # cs) = (if p = c then strip_prefix ps cs else None)"

definition itemURL_FindStringSubmatch :: "string \<Rightarrow> string list" where
  "itemURL_FindStringSubmatch s =
     (case strip_prefix ''/item/'' s of
        None \<Rightarrow> []
      | Some t \<Rightarrow> if t \<noteq> [] \<and> list_all is_word t then [s, t] else [])"

section \<open>encoding/json\<close>

text \<open>
  \<open>json.Marshal\<close> writes a string between double quotes. Of the ASCII bytes it copies
  those of \<open>htmlSafeSet\<close> and escapes the others (with the short escapes of current Go
  for backspace and form feed); of the bytes from 0x80 on it copies a
  well-formed UTF-8 sequence, except U+2028 and U+2029, and replaces a byte that starts no
  such sequence by the escape of U+FFFD.
\<close>

definition htmlSafeSet :: "char \<Rightarrow> bool" where
  "htmlSafeSet b =
     (0x20 \<le> byte b \<and> byte b < 0x80 \<and>
      b \<noteq> dq \<and> b \<noteq> bs \<and> b \<noteq> CHR ''<'' \<and> b \<noteq> CHR ''>'' \<and> b \<noteq> CHR ''&'')"

definition escapeByte :: "char \<Rightarrow> string" where
  "escapeByte b =
     (if b = bs \<or> b = dq then [bs, b]
      else if b = CHR 0x08 then [bs, CHR ''b'']
      else if b = CHR 0x0C then [bs, CHR ''f'']
      else if b = nl then [bs, CHR ''n'']
      else if b = CHR 0x0D then [bs, CHR ''r'']
      else if b = CHR 0x09 then [bs, CHR ''t'']
      else bs # ''u00'' @ [hex (byte b div 16), hex (byte b mod 16)])"

fun DecodeRune_size :: "string \<Rightarrow> nat option" where
  "DecodeRune_size [] = None"
| "DecodeRune_size (c # cs) =
     (let b = byte c in
      if 0xC2 \<le> b \<and> b \<le> 0xDF then
        (case cs of
           c1 # _ \<Rightarrow> if in_range c1 0x80 0xBF then Some 2 else None
         | _ \<Rightarrow> None)
      else if 0xE0 \<le> b \<and> b \<le> 0xEF then
        (case cs of
           c1 # c2 # _ \<Rightarrow>
             if in_range c1 (if b = 0xE0 then 0xA0 else 0x80) (if b = 0xED then 0x9F else 0xBF)
                \<and> in_range c2 0x80 0xBF
             then Some 3 else None
         | _ \<Rightarrow> None)
      else if 0xF0 \<le> b \<and> b \<le> 0xF4 then
        (case cs of
           c1 # c2 # c3 # _ \<Rightarrow>
             if in_range c1 (if b = 0xF0 then 0x90 else 0x80) (if b = 0xF4 then 0x8F else 0xBF)
                \<and> in_range c2 0x80 0xBF \<and> in_range c3 0x80 0xBF
             then Some 4 else None
         | _ \<Rightarrow> None)
      else None)"

fun appendString_bytes :: "string \<Rightarrow> string" where
  "appendString_bytes [] = []"
| "appendString_bytes (b # src) =
     (if byte b < 0x80 then
        (if htmlSafeSet b then b # appendString_bytes src
         else escapeByte b @ appendString_bytes src)
      else
        (case DecodeRune_size (b # src) of
           None \<Rightarrow> bs # ''ufffd'' @ appendString_bytes src
         | Some n \<Rightarrow>
             if take 3 (b # src) = [CHR 0xE2, CHR 0x80, CHR 0xA8]
             then bs # ''u2028'' @ appendString_bytes (drop 2 src)
             else if take 3 (b # src) = [CHR 0xE2, CHR 0x80, CHR 0xA9]
             then bs # ''u2029'' @ appendString_bytes (drop 2 src)
             else take n (b # src) @ appendString_bytes (drop (n - 1) src)))"

definition appendString :: "string \<Rightarrow> string" where
  "appendString src = dq # appendString_bytes src @ [dq]"

fun join :: "string \<Rightarrow> string list \<Rightarrow> string" where
  "join sep [] = []"
| "join sep [x] = x"
| "join sep (x # y # ys) = x @ sep @ join sep (y # ys)"

text \<open>
  A \<open>map[string]string\<close> is an association list with one entry for each key; assigning to
  a key replaces its entry or adds one. \<open>json.Marshal\<close> writes the members of a map in the
  order of their keys and the elements of a \<open>[]string\<close> in their order.
\<close>

type_synonym gomap = "(string \<times> string) list"

fun map_assign :: "gomap \<Rightarrow> string \<Rightarrow> string \<Rightarrow> gomap" where
  "map_assign [] k v = [(k, v)]"
| "map_assign ((k', v') # m) k v =
     (if k' = k then (k, v) # m else (k', v') # map_assign m k v)"

definition json_Marshal_map :: "gomap \<Rightarrow> string" where
  "json_Marshal_map m =
     ''{'' @ join '','' (map (\<lambda>(k, v). appendString k @ '':'' @ appendString v)
                            (sort_key fst m)) @ ''}''"

definition json_Marshal_strings :: "string list \<Rightarrow> string" where
  "json_Marshal_strings xs = ''['' @ join '','' (map appendString xs) @ '']''"

section \<open>The item handler\<close>

text \<open>
  The handler indexes \<open>itemMatches[1]\<close> once it knows the match is not empty; a match of
  this pattern always has two entries (lemma \<open>FindStringSubmatch_length\<close>), so the index
  is in range.
\<close>

definition ItemHandler :: "response \<Rightarrow> Request \<Rightarrow> response" where
  "ItemHandler response request =
     (let response = SetMyCookie response;
          response = response\<lparr>handlerHeader :=
                        Header_Set (handlerHeader response) ''Content-type'' ''application/json''\<rparr>;
          data = [(''what'', ''item''), (''name'', [])];
          itemMatches = itemURL_FindStringSubmatch (URL_Path request)
      in if length itemMatches > 0 then
           (let data = map_assign data ''name'' (itemMatches ! 1);
                dataall = itemMatches;
                dataall = dataall @ [''This is long JSON data for calculation for bytes.''];
                json_bytes = json_Marshal_map data;
                json_all = json_Marshal_strings dataall;
                response = Fprint response (json_bytes @ [nl])
            in Fprint response (json_all @ [nl]))
         else http_Error response ''404 page not found'' 404)"

section \<open>Errors and their texts\<close>

text \<open>
  The error values the two other handlers can meet, and what \<open>%v\<close> prints for them
  (their \<open>Error()\<close> text). \<open>url.EscapeError\<close> quotes the offending piece with
  \<open>strconv.Quote\<close>: printable ASCII is copied, a quote or backslash gets a backslash, the
  control bytes get their escapes. A byte from 0x80 on is written as \<open>\x\<close> and two hex
  digits: that is what Go prints for a byte outside a well-formed UTF-8 sequence (a
  well-formed sequence Go copies or writes as \<open>\u\<close>, by the Unicode tables, which are not
  modelled; no property below depends on it).
\<close>

datatype errno = ENOENT | EACCES | EISDIR | EIO

datatype error =
    EscapeError string
  | SemicolonError
  | PathError string string errno

definition quoteByte :: "char \<Rightarrow> string" where
  "quoteByte c =
     (if c = dq \<or> c = bs then [bs, c]
      else if 0x20 \<le> byte c \<and> byte c < 0x7F then [c]
      else if c = CHR 0x07 then [bs, CHR ''a'']
      else if c = CHR 0x08 then [bs, CHR ''b'']
      else if c = CHR 0x0C then [bs, CHR ''f'']
      else if c = nl then [bs, CHR ''n'']
      else if c = CHR 0x0D then [bs, CHR ''r'']
      else if c = CHR 0x09 then [bs, CHR ''t'']
      else if c = CHR 0x0B then [bs, CHR ''v'']
      else bs # CHR ''x'' # [hex (byte c div 16), hex (byte c mod 16)])"

definition Quote :: "string \<Rightarrow> string" where
  "Quote s = dq # concat (map quoteByte s) @ [dq]"

fun errno_text :: "errno \<Rightarrow> string" where
  "errno_text ENOENT = ''no such file or directory''"
| "errno_text EACCES = ''permission denied''"
| "errno_text EISDIR = ''is a directory''"
| "errno_text EIO = ''input/output error''"

fun Error :: "error \<Rightarrow> string" where
  "Error (EscapeError e) = ''invalid URL escape '' @ Quote e"
| "Error SemicolonError = ''invalid semicolon separator in query''"
| "Error (PathError op path e) = op @ '' '' @ path @ '': '' @ errno_text e"

section \<open>net/url: parsing a query\<close>

text \<open>
  \<open>url.Values\<close> is a \<open>map[string][]string\<close>: an association list with one entry for each
  key, to which \<open>m[key] = append(m[key], vs...)\<close> adds values.
\<close>

type_synonym Values = "(string \<times> string list) list"

fun Values_append :: "Values \<Rightarrow> string \<Rightarrow> string list \<Rightarrow> Values" where
  "Values_append [] k vs = [(k, vs)]"
| "Values_append ((k', vs') # m) k vs =
     (if k' = k then (k', vs' @ vs) # m else (k', vs') # Values_append m k vs)"

definition copyValues :: "Values \<Rightarrow> Values \<Rightarrow> Values" where
  "copyValues dst src = foldl (\<lambda>d (k, vs). Values_append d k vs) dst src"

definition Cut :: "string \<Rightarrow> char \<Rightarrow> string \<times> string" where
  "Cut s sep = (takeWhile (\<lambda>c. c \<noteq> sep) s, drop 1 (dropWhile (\<lambda>c. c \<noteq> sep) s))"

definition ishex :: "char \<Rightarrow> bool" where
  "ishex c = (is_digit c \<or> in_range c 0x61 0x66 \<or> in_range c 0x41 0x46)"

definition unhex :: "char \<Rightarrow> nat" where
  "unhex c =
     (if is_digit c then byte c - 0x30
      else if in_range c 0x61 0x66 then byte c - 0x61 + 10
      else if in_range c 0x41 0x46 then byte c - 0x41 + 10
      else 0)"

text \<open>
  \<open>url.QueryUnescape\<close>: a percent sign must be followed by two hex digits, else the result
  is the \<open>EscapeError\<close> of the (at most three) bytes from the percent sign on; a plus sign
  stands for a blank.
\<close>

fun QueryUnescape :: "string \<Rightarrow> error + string" where
  "QueryUnescape [] = Inr []"
| "QueryUnescape (c # cs) =
     (if c = CHR ''%'' then
        (case cs of
           a # b # rest \<Rightarrow>
             if ishex a \<and> ishex b
             then map_sum id (Cons (char_of (unhex a * 16 + unhex b))) (QueryUnescape rest)
             else Inl (EscapeError (take 3 (c # cs)))
         | _ \<Rightarrow> Inl (EscapeError (take 3 (c # cs))))
      else if c = CHR ''+'' then map_sum id (Cons (CHR '' '')) (QueryUnescape cs)
      else map_sum id (Cons c) (QueryUnescape cs))"

text \<open>
  The loop of \<open>url.parseQuery\<close>: it keeps going after a bad pair, remembers the first
  escape error, and a piece with a semicolon sets the error whatever it was.
\<close>

lemma Cut_shorter:
  assumes "s \<noteq> []" and "(a, b) = Cut s sep"
  shows "length b < length s"
proof -
  have "b = drop 1 (dropWhile (\<lambda>c. c \<noteq> sep) s)"
    using assms(2) by (simp add: Cut_def)
  moreover have "length (dropWhile (\<lambda>c. c \<noteq> sep) s) \<le> length s"
    by (rule length_dropWhile_le)
  ultimately show ?thesis
    using assms(1) by (cases s) auto
qed

function parseQuery :: "Values \<Rightarrow> error option \<Rightarrow> string \<Rightarrow> Values \<times> error option" where
  "parseQuery m err query =
     (if query = [] then (m, err)
      else
        (let (key, query') = Cut query (CHR ''&'') in
         if CHR '';'' \<in> set key then parseQuery m (Some SemicolonError) query'
         else if key = [] then parseQuery m err query'
         else
           (let (key, val) = Cut key (CHR ''='') in
            case QueryUnescape key of
              Inl err1 \<Rightarrow> parseQuery m (if err = None then Some err1 else err) query'
            | Inr key \<Rightarrow>
                (case QueryUnescape val of
                   Inl err1 \<Rightarrow> parseQuery m (if err = None then Some err1 else err) query'
                 | Inr val \<Rightarrow> parseQuery (Values_append m key [val]) err query'))))"
  by pat_completeness auto

termination
  by (relation "measure (\<lambda>(m, err, query). length query)")
     (auto dest: Cut_shorter)

definition ParseQuery :: "string \<Rightarrow> Values \<times> error option" where
  "ParseQuery query = parseQuery [] None query"

text \<open>
  \<open>Request.ParseForm\<close>: for POST, PUT and PATCH the url-encoded body is parsed first; then
  the query of the URL; the form holds the body's values followed by the query's, and the
  error is the first of the two.
\<close>

definition parsePostForm :: "Request \<Rightarrow> Values \<times> error option" where
  "parsePostForm r = (case PostBody r of None \<Rightarrow> ([], None) | Some b \<Rightarrow> ParseQuery b)"

definition ParseForm :: "Request \<Rightarrow> Values \<times> error option" where
  "ParseForm r =
     (let (PostForm, err) =
            (if Method r = ''POST'' \<or> Method r = ''PUT'' \<or> Method r = ''PATCH''
             then parsePostForm r else ([], None));
          (newValues, e) = ParseQuery (URL_RawQuery r);
          err = (if err = None then e else err);
          Form = (if length PostForm > 0
                  then copyValues (copyValues [] PostForm) newValues
                  else newValues)
      in (Form, err))"

section \<open>fmt: what \<open>%v\<close> prints\<close>

text \<open>
  A slice prints as its elements between brackets, separated by blanks; a map prints as
  \<open>map[k:v ...]\<close> in the order of its keys; a \<open>*http.Cookie\<close> prints through its
  \<open>String\<close> method.
\<close>

abbreviation sq :: char where "sq \<equiv> CHR 0x27"

definition fmt_strings :: "string list \<Rightarrow> string" where
  "fmt_strings xs = ''['' @ join '' '' xs @ '']''"

definition fmt_Values :: "Values \<Rightarrow> string" where
  "fmt_Values m =
     ''map['' @ join '' '' (map (\<lambda>(k, vs). k @ '':'' @ fmt_strings vs) (sort_key fst m)) @ '']''"

definition fmt_Cookies :: "Cookie list \<Rightarrow> string" where
  "fmt_Cookies cs = fmt_strings (map Cookie_String cs)"

section \<open>The generic handler\<close>

definition GenericHandler :: "response \<Rightarrow> Request \<Rightarrow> response" where
  "GenericHandler response request =
     (let response = SetMyCookie response;
          response = response\<lparr>handlerHeader :=
                        Header_Set (handlerHeader response) ''Content-type'' ''text/plain''\<rparr>;
          (Form, err) = ParseForm request;
          response = (case err of
                        Some e \<Rightarrow> http_Error response (''error parsing url '' @ Error e) 500
                      | None \<Rightarrow> response);
          response = Fprint response (''FooWebHandler says ... '' @ [nl]);
          response = Fprint response
                       ('' request.Method     '' @ [sq] @ Method request @ [sq, nl]);
          response = Fprint response
                       ('' request.RequestURI '' @ [sq] @ RequestURI request @ [sq, nl]);
          response = Fprint response
                       ('' request.URL.Path   '' @ [sq] @ URL_Path request @ [sq, nl]);
          response = Fprint response
                       ('' request.Form       '' @ [sq] @ fmt_Values Form @ [sq, nl])
      in Fprint response
           ('' request.Cookies()  '' @ [sq] @ fmt_Cookies (Cookies request) @ [sq, nl]))"

section \<open>The home handler\<close>

text \<open>
  What \<open>ioutil.ReadFile\<close> finds: a file that cannot be opened (missing, no permission),
  a file whose reading fails after some bytes (possibly none), or a file with its contents.
  It returns the bytes read and the error, if any.
\<close>

datatype file_state = OpenFails errno | ReadFails string errno | Contents string

type_synonym filesystem = "string \<Rightarrow> file_state"

definition ReadFile :: "filesystem \<Rightarrow> string \<Rightarrow> string \<times> error option" where
  "ReadFile fs name =
     (case fs name of
        OpenFails e \<Rightarrow> ([], Some (PathError ''open'' name e))
      | ReadFails d e \<Rightarrow> (d, Some (PathError ''read'' name e))
      | Contents d \<Rightarrow> (d, None))"

definition HomeHandler :: "filesystem \<Rightarrow> response \<Rightarrow> Request \<Rightarrow> response" where
  "HomeHandler fs response request =
     (let response = response\<lparr>handlerHeader :=
                        Header_Set (handlerHeader response) ''Content-type''
                          ''text/html; charset=utf-8''\<rparr>;
          (webpage, err) = ReadFile fs ''home.html'';
          response = (case err of
                        Some e \<Rightarrow> http_Error response (''home.html file error '' @ Error e) 500
                      | None \<Rightarrow> response)
      in Fprint response webpage)"

section \<open>Reading a response\<close>

text \<open>
  What a client sees of a response: the values of a header it was sent
  (\<open>Header.Values\<close>), the lines of the body (each ended by a newline; bytes after the last
  newline form a last line), and the value a line of compact JSON stands for. The JSON
  reader covers what the item handler can write: objects and arrays of strings without
  white space, strings with the two-character escapes; it rejects everything else
  (\<open>\u\<close> escapes included).
\<close>

definition Header_Values :: "Header \<Rightarrow> string \<Rightarrow> string list" where
  "Header_Values h key = (case h (CanonicalMIMEHeaderKey key) of None \<Rightarrow> [] | Some vs \<Rightarrow> vs)"

fun lines_from :: "string \<Rightarrow> string \<Rightarrow> string list" where
  "lines_from acc [] = (if acc = [] then [] else [acc])"
| "lines_from acc (c # cs) =
     (if c = nl then acc # lines_from [] cs else lines_from (acc @ [c]) cs)"

definition lines_of :: "string \<Rightarrow> string list" where
  "lines_of s = lines_from [] s"

definition nth_line :: "string \<Rightarrow> nat \<Rightarrow> string option" where
  "nth_line s n = (let ls = lines_of s in if n < length ls then Some (ls ! n) else None)"

datatype token = LBrace | RBrace | LBracket | RBracket | Colon | Comma | Str string

definition punctuation :: "char \<Rightarrow> token option" where
  "punctuation c =
     (if c = CHR ''{'' then Some LBrace else if c = CHR ''}'' then Some RBrace
      else if c = CHR ''['' then Some LBracket else if c = CHR '']'' then Some RBracket
      else if c = CHR '':'' then Some Colon else if c = CHR '','' then Some Comma
      else None)"

definition unescaped :: "char \<Rightarrow> char option" where
  "unescaped e =
     (if e = dq \<or> e = bs \<or> e = CHR ''/'' then Some e
      else if e = CHR ''b'' then Some (CHR 0x08)
      else if e = CHR ''f'' then Some (CHR 0x0C)
      else if e = CHR ''n'' then Some nl
      else if e = CHR ''r'' then Some (CHR 0x0D)
      else if e = CHR ''t'' then Some (CHR 0x09)
      else None)"

fun lex :: "string option \<Rightarrow> string \<Rightarrow> token list option" where
  "lex None [] = Some []"
| "lex (Some acc) [] = None"
| "lex None (c # cs) =
     (if c = dq then lex (Some []) cs
      else case punctuation c of
             None \<Rightarrow> None
           | Some t \<Rightarrow> map_option (Cons t) (lex None cs))"
| "lex (Some acc) (c # cs) =
     (if c = dq then map_option (Cons (Str acc)) (lex None cs)
      else if c = bs then
        (case cs of
           [] \<Rightarrow> None
         | e # cs' \<Rightarrow>
             (case unescaped e of None \<Rightarrow> None | Some d \<Rightarrow> lex (Some (acc @ [d])) cs'))
      else if byte c < 0x20 then None
      else lex (Some (acc @ [c])) cs)"

fun members :: "token list \<Rightarrow> (string \<times> string) list option" where
  "members [Str k, Colon, Str v, RBrace] = Some [(k, v)]"
| "members (Str k # Colon # Str v # Comma # ts) = map_option (Cons (k, v)) (members ts)"
| "members ts = None"

fun object_tokens :: "token list \<Rightarrow> (string \<times> string) list option" where
  "object_tokens [LBrace, RBrace] = Some []"
| "object_tokens (LBrace # ts) = members ts"
| "object_tokens ts = None"

definition json_object :: "string \<Rightarrow> (string \<times> string) list option" where
  "json_object s = Option.bind (lex None s) object_tokens"

fun elements :: "token list \<Rightarrow> string list option" where
  "elements [Str s, RBracket] = Some [s]"
| "elements (Str s # Comma # ts) = map_option (Cons s) (elements ts)"
| "elements ts = None"

fun array_tokens :: "token list \<Rightarrow> string list option" where
  "array_tokens [LBracket, RBracket] = Some []"
| "array_tokens (LBracket # ts) = elements ts"
| "array_tokens ts = None"

definition json_array :: "string \<Rightarrow> string list option" where
  "json_array s = Option.bind (lex None s) array_tokens"

section \<open>Sample requests\<close>

text \<open>
  The request the server hands to a handler for \<open>GET path?query\<close> (a path and a query
  without escapes), with the cookies the client sent.
\<close>

definition GET :: "string \<Rightarrow> string \<Rightarrow> Cookie list \<Rightarrow> Request" where
  "GET path query cookies =
     \<lparr>Method = ''GET'',
      RequestURI = (if query = [] then path else path @ ''?'' @ query),
      URL_Path = path, URL_RawQuery = query, PostBody = None, Cookies = cookies\<rparr>"

section \<open>Handler prologues\<close>

text \<open>
  The response writer after the first two statements of the item handler: the cookie is
  set and the content type is JSON.
\<close>

definition item_prologue :: "response \<Rightarrow> response" where
  "item_prologue w =
     (SetMyCookie w)\<lparr>handlerHeader :=
        Header_Set (handlerHeader (SetMyCookie w)) ''Content-type'' ''application/json''\<rparr>"

text \<open>
  The same for the generic handler (cookie, plain text) and for the home handler (HTML,
  no cookie).
\<close>

definition generic_prologue :: "response \<Rightarrow> response" where
  "generic_prologue w =
     (SetMyCookie w)\<lparr>handlerHeader :=
        Header_Set (handlerHeader (SetMyCookie w)) ''Content-type'' ''text/plain''\<rparr>"

definition home_prologue :: "response \<Rightarrow> response" where
  "home_prologue w =
     w\<lparr>handlerHeader :=
        Header_Set (handlerHeader w) ''Content-type'' ''text/html; charset=utf-8''\<rparr>"

section \<open>Properties\<close>

subsection \<open>Header keys and the fixed cookie\<close>

lemma canon_keys:
  "CanonicalMIMEHeaderKey ''Set-Cookie'' = ''Set-Cookie''"
  "CanonicalMIMEHeaderKey ''Content-type'' = ''Content-Type''"
  "CanonicalMIMEHeaderKey ''Content-Type'' = ''Content-Type''"
  "CanonicalMIMEHeaderKey ''Content-Length'' = ''Content-Length''"
  "CanonicalMIMEHeaderKey ''X-Content-Type-Options'' = ''X-Content-Type-Options''"
  by code_simp+

lemma my_cookie_String:
  "Cookie_String \<lparr>Name = ''testcookiename'', Value = ''testcookievalue''\<rparr> =
     ''testcookiename=testcookievalue''"
  by code_simp

lemma SetMyCookie_eq:
  "SetMyCookie w =
     w\<lparr>handlerHeader := Header_Add (handlerHeader w) ''Set-Cookie'' ''testcookiename=testcookievalue''\<rparr>"
  by (simp add: SetMyCookie_def SetCookie_def my_cookie_String)

lemma strip_prefix_append: "strip_prefix p (p @ t) = Some t"
  by (induction p) auto

lemma strip_prefix_Some: "strip_prefix p s = Some t \<Longrightarrow> s = p @ t"
  by (induction p s rule: strip_prefix.induct) (auto split: if_splits)

lemma match_iff:
  "itemURL_FindStringSubmatch s \<noteq> [] \<longleftrightarrow>
     (\<exists>t. s = ''/item/'' @ t \<and> t \<noteq> [] \<and> list_all is_word t)"
  unfolding itemURL_FindStringSubmatch_def
  by (auto split: option.splits dest: strip_prefix_Some)

lemma FindStringSubmatch_length:
  "itemURL_FindStringSubmatch s = [] \<or> length (itemURL_FindStringSubmatch s) = 2"
  by (simp add: itemURL_FindStringSubmatch_def split: option.splits)

lemma match_token:
  assumes "t \<noteq> []" and "list_all is_word t"
  shows "itemURL_FindStringSubmatch (''/item/'' @ t) = [''/item/'' @ t, t]"
  using assms unfolding itemURL_FindStringSubmatch_def
  by simp

lemma is_word_htmlSafe: "is_word c \<Longrightarrow> htmlSafeSet c"
  unfolding is_word_def htmlSafeSet_def is_digit_def is_upper_def is_lower_def in_range_def byte_def
  by auto

lemma appendString_bytes_safe: "list_all htmlSafeSet s \<Longrightarrow> appendString_bytes s = s"
  by (induction s) (auto simp: htmlSafeSet_def)

lemma appendString_safe: "list_all htmlSafeSet s \<Longrightarrow> appendString s = dq # s @ [dq]"
  by (simp add: appendString_def appendString_bytes_safe)


subsection \<open>Writing\<close>

lemma Fprint_simps:
  "body (Fprint w s) = body w @ s"
  "status (Fprint w s) = (if wroteHeader w then status w else 200)"
  "wroteHeader (Fprint w s)"
  "sentHeader (Fprint w s) = (if wroteHeader w then sentHeader w else handlerHeader w)"
  "handlerHeader (Fprint w s) = handlerHeader w"
  by (simp_all add: Fprint_def Write_def WriteHeader_def Let_def)

lemma http_Error_simps:
  "body (http_Error w e code) = body w @ e @ [nl]"
  "status (http_Error w e code) = (if wroteHeader w then status w else code)"
  "wroteHeader (http_Error w e code)"
  "sentHeader (http_Error w e code) =
     (if wroteHeader w then sentHeader w
      else Header_Set (Header_Set (Header_Del (handlerHeader w) ''Content-Length'')
             ''Content-Type'' ''text/plain; charset=utf-8'') ''X-Content-Type-Options'' ''nosniff'')"
  by (simp_all add: http_Error_def Let_def Fprint_simps WriteHeader_def)

subsection \<open>The two branches of the item handler\<close>

lemma ItemHandler_match:
  assumes "itemURL_FindStringSubmatch (URL_Path r) = [p, t]"
  shows "ItemHandler w r =
           Fprint (Fprint (item_prologue w)
                     (json_Marshal_map [(''what'', ''item''), (''name'', t)] @ [nl]))
             (json_Marshal_strings [p, t, ''This is long JSON data for calculation for bytes.'']
                @ [nl])"
  using assms by (simp add: ItemHandler_def item_prologue_def Let_def)

lemma ItemHandler_no_match:
  assumes "itemURL_FindStringSubmatch (URL_Path r) = []"
  shows "ItemHandler w r = http_Error (item_prologue w) ''404 page not found'' 404"
  using assms by (simp add: ItemHandler_def item_prologue_def Let_def)

lemma item_prologue_fields:
  "wroteHeader (item_prologue w) = wroteHeader w"
  "body (item_prologue w) = body w"
  "status (item_prologue w) = status w"
  "sentHeader (item_prologue w) = sentHeader w"
  by (simp_all add: item_prologue_def SetMyCookie_eq)

lemma Marshal_item_map:
  assumes "list_all htmlSafeSet t"
  shows "json_Marshal_map [(''what'', ''item''), (''name'', t)] =
           CHR ''{'' # dq # ''name'' @ dq # CHR '':'' # dq # t @ dq # CHR '','' # dq # ''what''
             @ dq # CHR '':'' # dq # ''item'' @ [dq, CHR ''}'']"
  using assms by (simp add: json_Marshal_map_def appendString_safe htmlSafeSet_def byte_def)

lemma Marshal_item_array:
  assumes "list_all htmlSafeSet t"
  shows "json_Marshal_strings
           [''/item/'' @ t, t, ''This is long JSON data for calculation for bytes.''] =
           CHR ''['' # dq # ''/item/'' @ t @ dq # CHR '','' # dq # t @ dq # CHR '','' # dq #
             ''This is long JSON data for calculation for bytes.'' @ [dq, CHR '']'']"
proof -
  have lit: "appendString ''This is long JSON data for calculation for bytes.'' =
               dq # ''This is long JSON data for calculation for bytes.'' @ [dq]"
    by (rule appendString_safe) (simp add: htmlSafeSet_def byte_def)
  have full: "appendString (''/item/'' @ t) = dq # (''/item/'' @ t) @ [dq]"
    by (rule appendString_safe) (use assms in \<open>simp add: htmlSafeSet_def byte_def\<close>)
  show ?thesis
    unfolding json_Marshal_strings_def
    by (simp only: list.map join.simps lit full appendString_safe [OF assms]) simp
qed


subsection \<open>Lines and JSON texts\<close>

lemma lines_from_line:
  "nl \<notin> set a \<Longrightarrow> lines_from acc (a @ nl # r) = (acc @ a) # lines_from [] r"
  by (induction a arbitrary: acc) auto

lemma lines_of_line: "nl \<notin> set a \<Longrightarrow> lines_of (a @ nl # r) = a # lines_of r"
  by (simp add: lines_of_def lines_from_line)

lemma lines_of_Nil: "lines_of [] = []"
  by (simp add: lines_of_def)

lemma htmlSafe_not_nl: "list_all htmlSafeSet t \<Longrightarrow> nl \<notin> set t"
  by (induction t) (auto simp: htmlSafeSet_def byte_def)

lemma lex_Str:
  "list_all htmlSafeSet s \<Longrightarrow>
     lex (Some acc) (s @ dq # r) = map_option (Cons (Str (acc @ s))) (lex None r)"
  by (induction s arbitrary: acc) (auto simp: htmlSafeSet_def)

lemma json_object_item:
  assumes "list_all htmlSafeSet t"
  shows "json_object
           (CHR ''{'' # dq # ''name'' @ dq # CHR '':'' # dq # t @ dq # CHR '','' # dq # ''what''
             @ dq # CHR '':'' # dq # ''item'' @ [dq, CHR ''}'']) =
         Some [(''name'', t), (''what'', ''item'')]"
  by (simp add: json_object_def punctuation_def byte_def lex_Str [OF assms])

lemma json_array_item:
  assumes "list_all htmlSafeSet t"
  shows "json_array
           (CHR ''['' # dq # ''/item/'' @ t @ dq # CHR '','' # dq # t @ dq # CHR '','' # dq #
             ''This is long JSON data for calculation for bytes.'' @ [dq, CHR '']'']) =
         Some [''/item/'' @ t, t, ''This is long JSON data for calculation for bytes.'']"
  by (simp add: json_array_def punctuation_def byte_def lex_Str [OF assms])


subsection \<open>What the item handler writes for a token\<close>

lemma is_word_list_htmlSafe: "list_all is_word t \<Longrightarrow> list_all htmlSafeSet t"
  by (induction t) (auto dest: is_word_htmlSafe)

lemma item_body:
  assumes "T \<noteq> []" and "list_all is_word T" and "URL_Path request = ''/item/'' @ T"
  shows "body (ItemHandler new_response request) =
           (CHR ''{'' # dq # ''name'' @ dq # CHR '':'' # dq # T @ dq # CHR '','' # dq # ''what''
             @ dq # CHR '':'' # dq # ''item'' @ [dq, CHR ''}'']) @ nl #
           (CHR ''['' # dq # ''/item/'' @ T @ dq # CHR '','' # dq # T @ dq # CHR '','' # dq #
             ''This is long JSON data for calculation for bytes.'' @ [dq, CHR '']'']) @ nl # []"
proof -
  have safe: "list_all htmlSafeSet T"
    using assms(2) by (rule is_word_list_htmlSafe)
  have m: "itemURL_FindStringSubmatch (URL_Path request) = [''/item/'' @ T, T]"
    unfolding assms(3) using assms(1,2) by (rule match_token)
  show ?thesis
    unfolding ItemHandler_match [OF m] Fprint_simps item_prologue_fields
      Marshal_item_map [OF safe] Marshal_item_array [OF safe]
    by (simp add: new_response_def)
qed

lemma item_status:
  assumes "T \<noteq> []" and "list_all is_word T" and "URL_Path request = ''/item/'' @ T"
  shows "status (ItemHandler new_response request) = 200"
proof -
  have m: "itemURL_FindStringSubmatch (URL_Path request) = [''/item/'' @ T, T]"
    unfolding assms(3) using assms(1,2) by (rule match_token)
  show ?thesis
    unfolding ItemHandler_match [OF m]
    by (simp add: Fprint_simps item_prologue_fields new_response_def)
qed

lemma item_lines:
  assumes "T \<noteq> []" and "list_all is_word T" and "URL_Path request = ''/item/'' @ T"
  shows "lines_of (body (ItemHandler new_response request)) =
           [CHR ''{'' # dq # ''name'' @ dq # CHR '':'' # dq # T @ dq # CHR '','' # dq # ''what''
             @ dq # CHR '':'' # dq # ''item'' @ [dq, CHR ''}''],
            CHR ''['' # dq # ''/item/'' @ T @ dq # CHR '','' # dq # T @ dq # CHR '','' # dq #
             ''This is long JSON data for calculation for bytes.'' @ [dq, CHR '']'']]"
proof -
  have safe: "list_all htmlSafeSet T"
    using assms(2) by (rule is_word_list_htmlSafe)
  have n: "nl \<notin> set T"
    using safe by (rule htmlSafe_not_nl)
  show ?thesis
    unfolding item_body [OF assms]
    by (subst lines_of_line, simp add: n, subst lines_of_line, simp add: n)
       (simp add: lines_of_Nil)
qed

subsection \<open>Header values, the generic handler, the home handler\<close>

lemma Header_Values_simps:
  "Header_Values (Header_Add h k v) k' =
     (if CanonicalMIMEHeaderKey k' = CanonicalMIMEHeaderKey k then Header_Values h k @ [v]
      else Header_Values h k')"
  "Header_Values (Header_Set h k v) k' =
     (if CanonicalMIMEHeaderKey k' = CanonicalMIMEHeaderKey k then [v] else Header_Values h k')"
  "Header_Values (Header_Del h k) k' =
     (if CanonicalMIMEHeaderKey k' = CanonicalMIMEHeaderKey k then [] else Header_Values h k')"
  by (simp_all add: Header_Values_def Header_Add_def Header_Set_def Header_Del_def Let_def
        split: option.splits)

lemma item_prologue_cookie:
  "Header_Values (handlerHeader (item_prologue w)) ''Set-Cookie'' =
     Header_Values (handlerHeader w) ''Set-Cookie'' @ [''testcookiename=testcookievalue'']"
  by (simp add: item_prologue_def SetMyCookie_eq Header_Values_simps canon_keys)

lemma generic_prologue_cookie:
  "Header_Values (handlerHeader (generic_prologue w)) ''Set-Cookie'' =
     Header_Values (handlerHeader w) ''Set-Cookie'' @ [''testcookiename=testcookievalue'']"
  by (simp add: generic_prologue_def SetMyCookie_eq Header_Values_simps canon_keys)

lemma generic_prologue_fields:
  "wroteHeader (generic_prologue w) = wroteHeader w"
  "body (generic_prologue w) = body w"
  "status (generic_prologue w) = status w"
  "sentHeader (generic_prologue w) = sentHeader w"
  by (simp_all add: generic_prologue_def SetMyCookie_eq)

lemma GenericHandler_ok:
  assumes "ParseForm r = (Form, None)"
  shows "GenericHandler w r =
           Fprint (Fprint (Fprint (Fprint (Fprint (Fprint (generic_prologue w)
             (''FooWebHandler says ... '' @ [nl]))
             ('' request.Method     '' @ [sq] @ Method r @ [sq, nl]))
             ('' request.RequestURI '' @ [sq] @ RequestURI r @ [sq, nl]))
             ('' request.URL.Path   '' @ [sq] @ URL_Path r @ [sq, nl]))
             ('' request.Form       '' @ [sq] @ fmt_Values Form @ [sq, nl]))
             ('' request.Cookies()  '' @ [sq] @ fmt_Cookies (Cookies r) @ [sq, nl])"
  using assms by (simp add: GenericHandler_def generic_prologue_def Let_def)

lemma GenericHandler_err:
  assumes "ParseForm r = (Form, Some e)"
  shows "GenericHandler w r =
           Fprint (Fprint (Fprint (Fprint (Fprint (Fprint
             (http_Error (generic_prologue w) (''error parsing url '' @ Error e) 500)
             (''FooWebHandler says ... '' @ [nl]))
             ('' request.Method     '' @ [sq] @ Method r @ [sq, nl]))
             ('' request.RequestURI '' @ [sq] @ RequestURI r @ [sq, nl]))
             ('' request.URL.Path   '' @ [sq] @ URL_Path r @ [sq, nl]))
             ('' request.Form       '' @ [sq] @ fmt_Values Form @ [sq, nl]))
             ('' request.Cookies()  '' @ [sq] @ fmt_Cookies (Cookies r) @ [sq, nl])"
  using assms by (simp add: GenericHandler_def generic_prologue_def Let_def)

lemma item_sent_cookie:
  assumes "\<not> wroteHeader w"
  shows "''testcookiename=testcookievalue'' \<in>
           set (Header_Values (sentHeader (ItemHandler w r)) ''Set-Cookie'')"
proof (cases "itemURL_FindStringSubmatch (URL_Path r) = []")
  case True
  show ?thesis
    unfolding ItemHandler_no_match [OF True]
    using assms
    by (simp add: http_Error_simps item_prologue_fields Header_Values_simps canon_keys
          item_prologue_cookie)
next
  case False
  then obtain t where t: "URL_Path r = ''/item/'' @ t" "t \<noteq> []" "list_all is_word t"
    unfolding match_iff by blast
  have m: "itemURL_FindStringSubmatch (URL_Path r) = [''/item/'' @ t, t]"
    unfolding t(1) using t(2,3) by (rule match_token)
  show ?thesis
    unfolding ItemHandler_match [OF m]
    using assms by (simp add: Fprint_simps item_prologue_fields item_prologue_cookie)
qed

lemma generic_sent_cookie:
  assumes "\<not> wroteHeader w"
  shows "''testcookiename=testcookievalue'' \<in>
           set (Header_Values (sentHeader (GenericHandler w r)) ''Set-Cookie'')"
proof (cases "ParseForm r")
  case (Pair Form err)
  show ?thesis
  proof (cases err)
    case None
    show ?thesis
      unfolding GenericHandler_ok [OF Pair [unfolded None]]
      using assms by (simp add: Fprint_simps generic_prologue_fields generic_prologue_cookie)
  next
    case (Some e)
    show ?thesis
      unfolding GenericHandler_err [OF Pair [unfolded Some]]
      using assms
      by (simp add: Fprint_simps http_Error_simps generic_prologue_fields Header_Values_simps
            canon_keys generic_prologue_cookie)
  qed
qed

lemma generic_status:
  "status (GenericHandler new_response r) = (if snd (ParseForm r) = None then 200 else 500)"
proof (cases "ParseForm r")
  case (Pair Form err)
  show ?thesis
  proof (cases err)
    case None
    show ?thesis
      unfolding GenericHandler_ok [OF Pair [unfolded None]]
      by (simp add: Fprint_simps generic_prologue_fields new_response_def Pair None)
  next
    case (Some e)
    show ?thesis
      unfolding GenericHandler_err [OF Pair [unfolded Some]]
      by (simp add: Fprint_simps http_Error_simps generic_prologue_fields new_response_def
            Pair Some)
  qed
qed


lemma generic_failure_body:
  assumes "ParseForm r = (Form, Some e)"
  shows "body (GenericHandler new_response r) =
           ''error parsing url '' @ Error e @ [nl] @
           ''FooWebHandler says ... '' @ [nl] @
           '' request.Method     '' @ [sq] @ Method r @ [sq, nl] @
           '' request.RequestURI '' @ [sq] @ RequestURI r @ [sq, nl] @
           '' request.URL.Path   '' @ [sq] @ URL_Path r @ [sq, nl] @
           '' request.Form       '' @ [sq] @ fmt_Values Form @ [sq, nl] @
           '' request.Cookies()  '' @ [sq] @ fmt_Cookies (Cookies r) @ [sq, nl]"
  unfolding GenericHandler_err [OF assms]
  by (simp add: Fprint_simps http_Error_simps generic_prologue_fields new_response_def)






lemma ParseQuery_bad_escape: "ParseQuery ''a=%zz'' = ([], Some (EscapeError ''%zz''))"
  by code_simp

lemma Quote_bad_escape: "Quote ''%zz'' = [dq] @ ''%zz'' @ [dq]"
  by code_simp

lemma ParseForm_bad_escape:
  "ParseForm (GET ''/generic/x'' ''a=%zz'' []) = ([], Some (EscapeError ''%zz''))"
  by (simp add: ParseForm_def GET_def ParseQuery_bad_escape)

lemma HomeHandler_ok:
  assumes "ReadFile fs ''home.html'' = (d, None)"
  shows "HomeHandler fs w r = Fprint (home_prologue w) d"
  using assms by (simp add: HomeHandler_def home_prologue_def Let_def)

lemma HomeHandler_err:
  assumes "ReadFile fs ''home.html'' = (d, Some e)"
  shows "HomeHandler fs w r =
           Fprint (http_Error (home_prologue w) (''home.html file error '' @ Error e) 500) d"
  using assms by (simp add: HomeHandler_def home_prologue_def Let_def)

lemma home_prologue_fields:
  "wroteHeader (home_prologue w) = wroteHeader w"
  "body (home_prologue w) = body w"
  "status (home_prologue w) = status w"
  "sentHeader (home_prologue w) = sentHeader w"
  by (simp_all add: home_prologue_def)

lemma home_read_fault_body:
  assumes "fs ''home.html'' = ReadFails d en"
  shows "body (HomeHandler fs new_response r) =
           ''home.html file error read home.html: '' @ errno_text en @ [nl] @ d"
proof -
  have "ReadFile fs ''home.html'' = (d, Some (PathError ''read'' ''home.html'' en))"
    using assms by (simp add: ReadFile_def)
  then show ?thesis
    by (simp add: HomeHandler_err Fprint_simps http_Error_simps home_prologue_fields
          new_response_def)
qed

section \<open>The item handler, verified\<close>

text \<open>
  Claim C2. For every token \<open>T\<close> of one or more word characters, a request whose URL path
  is \<open>/item/T\<close> gets status 200, and the first line of the body is a JSON text that reads
  back as the object with \<open>name\<close> equal to \<open>T\<close> and \<open>what\<close> equal to \<open>item\<close>.
\<close>

theorem item_first_line_is_item_record:
  assumes "T \<noteq> []" and "list_all is_word T" and "URL_Path request = ''/item/'' @ T"
  shows "status (ItemHandler new_response request) = 200 \<and>
         map_option json_object (nth_line (body (ItemHandler new_response request)) 0) =
           Some (Some [(''name'', T), (''what'', ''item'')])"
proof -
  let ?L = "CHR ''{'' # dq # ''name'' @ dq # CHR '':'' # dq # T @ dq # CHR '','' # dq # ''what''
             @ dq # CHR '':'' # dq # ''item'' @ [dq, CHR ''}'']"
  have safe: "list_all htmlSafeSet T"
    using assms(2) by (rule is_word_list_htmlSafe)
  have l: "nth_line (body (ItemHandler new_response request)) 0 = Some ?L"
    by (simp add: nth_line_def item_lines [OF assms])
  have j: "json_object ?L = Some [(''name'', T), (''what'', ''item'')]"
    using safe by (rule json_object_item)
  show ?thesis
    by (simp only: l j option.map item_status [OF assms] simp_thms)
qed

theorem item_first_line_is_item_record_witness:
  "''yellow'' \<noteq> [] \<and> list_all is_word ''yellow'' \<and>
   URL_Path (GET ''/item/yellow'' [] []) = ''/item/'' @ ''yellow'' \<and>
   status (ItemHandler new_response (GET ''/item/yellow'' [] [])) = 200 \<and>
   map_option json_object
     (nth_line (body (ItemHandler new_response (GET ''/item/yellow'' [] []))) 0) =
     Some (Some [(''name'', ''yellow''), (''what'', ''item'')])"
proof -
  have a: "''yellow'' \<noteq> []"
    by simp
  have b: "list_all is_word ''yellow''"
    by code_simp
  have c: "URL_Path (GET ''/item/yellow'' [] []) = ''/item/'' @ ''yellow''"
    by (simp add: GET_def)
  show ?thesis
    using a b c item_first_line_is_item_record [OF a b c] by blast
qed

text \<open>
  Claim C4. For every token \<open>T\<close> of word characters, the second line written for the path
  \<open>/item/T\<close> is a JSON array of three strings: the whole match \<open>/item/T\<close>, the token
  \<open>T\<close>, and the fixed sentence.
\<close>

theorem item_second_line_is_array:
  assumes "T \<noteq> []" and "list_all is_word T" and "URL_Path request = ''/item/'' @ T"
  shows "map_option json_array (nth_line (body (ItemHandler new_response request)) 1) =
           Some (Some [''/item/'' @ T, T, ''This is long JSON data for calculation for bytes.''])"
proof -
  let ?L = "CHR ''['' # dq # ''/item/'' @ T @ dq # CHR '','' # dq # T @ dq # CHR '','' # dq #
             ''This is long JSON data for calculation for bytes.'' @ [dq, CHR '']'']"
  have safe: "list_all htmlSafeSet T"
    using assms(2) by (rule is_word_list_htmlSafe)
  have l: "nth_line (body (ItemHandler new_response request)) 1 = Some ?L"
    by (simp add: nth_line_def item_lines [OF assms])
  have j: "json_array ?L =
             Some [''/item/'' @ T, T, ''This is long JSON data for calculation for bytes.'']"
    using safe by (rule json_array_item)
  show ?thesis
    by (simp only: l j option.map simp_thms)
qed

theorem item_second_line_is_array_witness:
  "''a_1'' \<noteq> [] \<and> list_all is_word ''a_1'' \<and>
   URL_Path (GET ''/item/a_1'' ''x=y'' []) = ''/item/'' @ ''a_1'' \<and>
   map_option json_array
     (nth_line (body (ItemHandler new_response (GET ''/item/a_1'' ''x=y'' []))) 1) =
     Some (Some [''/item/'' @ ''a_1'', ''a_1'',
                 ''This is long JSON data for calculation for bytes.''])"
proof -
  have a: "''a_1'' \<noteq> []"
    by simp
  have b: "list_all is_word ''a_1''"
    by code_simp
  have c: "URL_Path (GET ''/item/a_1'' ''x=y'' []) = ''/item/'' @ ''a_1''"
    by (simp add: GET_def)
  show ?thesis
    using a b c item_second_line_is_array [OF a b c] by blast
qed

text \<open>
  Claim C3, as stated: a path under \<open>/item/\<close> that the pattern does not match gets status
  404 and the body \<open>404 page not found\<close>. The body is not exactly that text: for the path
  \<open>/item/a/b\<close>, which has an extra slash, \<open>http.Error\<close> writes the text and a newline.
\<close>

theorem item_not_found_body_counterexample:
  "strip_prefix ''/item/'' ''/item/a/b'' = Some ''a/b'' \<and>
   itemURL_FindStringSubmatch (URL_Path (GET ''/item/a/b'' [] [])) = [] \<and>
   body (ItemHandler new_response (GET ''/item/a/b'' [] [])) \<noteq> ''404 page not found''"
proof -
  have m: "itemURL_FindStringSubmatch (URL_Path (GET ''/item/a/b'' [] [])) = []"
    by code_simp
  have "body (ItemHandler new_response (GET ''/item/a/b'' [] [])) = ''404 page not found'' @ [nl]"
    unfolding ItemHandler_no_match [OF m]
    by (simp add: http_Error_simps item_prologue_fields new_response_def)
  then show ?thesis
    using m by simp
qed

text \<open>
  Claim C3, amended. For every request whose path the pattern \<open>^/item/(\w+)$\<close> does not
  match (a byte outside the word class, an extra slash, no token), the item handler
  answers with status 404 and a body of exactly the text \<open>404 page not found\<close> followed by
  one newline. By lemma \<open>match_iff\<close> the pattern matches just the paths \<open>/item/T\<close> with
  \<open>T\<close> one or more word bytes.
\<close>

theorem item_no_match_not_found:
  assumes "itemURL_FindStringSubmatch (URL_Path request) = []"
  shows "status (ItemHandler new_response request) = 404 \<and>
         body (ItemHandler new_response request) = ''404 page not found'' @ [nl]"
  unfolding ItemHandler_no_match [OF assms]
  by (simp add: http_Error_simps item_prologue_fields new_response_def)

theorem item_no_match_not_found_witness:
  "itemURL_FindStringSubmatch (URL_Path (GET ''/item/'' [] [])) = [] \<and>
   status (ItemHandler new_response (GET ''/item/'' [] [])) = 404 \<and>
   body (ItemHandler new_response (GET ''/item/'' [] [])) = ''404 page not found'' @ [nl]"
proof -
  have m: "itemURL_FindStringSubmatch (URL_Path (GET ''/item/'' [] [])) = []"
    by code_simp
  show ?thesis
    using m item_no_match_not_found [OF m] by blast
qed

text \<open>
  Claim C10. The item handler reads nothing of the request but its URL path: two requests
  with the same path get the same response (status, body, and all headers, the
  \<open>Set-Cookie\<close> and \<open>Content-Type\<close> ones among them), whatever their methods, queries,
  forms and cookies.
\<close>

theorem item_depends_on_path_only:
  assumes "URL_Path r1 = URL_Path r2"
  shows "ItemHandler w r1 = ItemHandler w r2"
  using assms by (simp add: ItemHandler_def)

theorem item_depends_on_path_only_witness:
  "URL_Path (GET ''/item/yellow'' [] []) =
     URL_Path \<lparr>Method = ''POST'', RequestURI = ''/item/yellow?x=1'', URL_Path = ''/item/yellow'',
               URL_RawQuery = ''x=1'', PostBody = Some ''a=b'',
               Cookies = [\<lparr>Name = ''k'', Value = ''v''\<rparr>]\<rparr> \<and>
   ItemHandler new_response (GET ''/item/yellow'' [] []) =
     ItemHandler new_response
       \<lparr>Method = ''POST'', RequestURI = ''/item/yellow?x=1'', URL_Path = ''/item/yellow'',
        URL_RawQuery = ''x=1'', PostBody = Some ''a=b'',
        Cookies = [\<lparr>Name = ''k'', Value = ''v''\<rparr>]\<rparr>"
proof -
  have p: "URL_Path (GET ''/item/yellow'' [] []) =
     URL_Path \<lparr>Method = ''POST'', RequestURI = ''/item/yellow?x=1'', URL_Path = ''/item/yellow'',
               URL_RawQuery = ''x=1'', PostBody = Some ''a=b'',
               Cookies = [\<lparr>Name = ''k'', Value = ''v''\<rparr>]\<rparr>"
    by (simp add: GET_def)
  show ?thesis
    using p item_depends_on_path_only [OF p, of new_response] by blast
qed

section \<open>The cookie, verified\<close>

text \<open>
  Claim C6. Every response of the generic handler and every response of the item handler,
  whether the request succeeds or fails, is sent with a \<open>Set-Cookie\<close> header for
  \<open>testcookiename=testcookievalue\<close>. It holds for every response writer whose header has
  not been written yet, as the one the server hands to a handler.
\<close>

theorem handlers_send_the_cookie:
  assumes "\<not> wroteHeader w"
  shows "''testcookiename=testcookievalue'' \<in>
           set (Header_Values (sentHeader (GenericHandler w r)) ''Set-Cookie'') \<and>
         ''testcookiename=testcookievalue'' \<in>
           set (Header_Values (sentHeader (ItemHandler w r')) ''Set-Cookie'')"
  using generic_sent_cookie [OF assms] item_sent_cookie [OF assms] by simp

theorem handlers_send_the_cookie_witness:
  "\<not> wroteHeader new_response \<and>
   ''testcookiename=testcookievalue'' \<in>
     set (Header_Values (sentHeader (GenericHandler new_response (GET ''/generic/x'' ''a=%zz'' [])))
            ''Set-Cookie'') \<and>
   ''testcookiename=testcookievalue'' \<in>
     set (Header_Values (sentHeader (ItemHandler new_response (GET ''/item/'' [] [])))
            ''Set-Cookie'')"
proof -
  have h: "\<not> wroteHeader new_response"
    by (simp add: new_response_def)
  show ?thesis
    using h handlers_send_the_cookie [OF h, of "GET ''/generic/x'' ''a=%zz'' []" "GET ''/item/'' [] []"]
    by blast
qed

text \<open>
  Claim C7. For every response writer, \<open>SetMyCookie\<close> appends the value
  \<open>testcookiename=testcookievalue\<close> to the \<open>Set-Cookie\<close> header and changes nothing else:
  the other headers, the body, the status and what was already sent stay as they were.
  It has no error result: the function is total.
\<close>

theorem SetMyCookie_appends_header_only:
  "handlerHeader (SetMyCookie w) =
     (handlerHeader w)(''Set-Cookie'' \<mapsto>
        Header_Values (handlerHeader w) ''Set-Cookie'' @ [''testcookiename=testcookievalue'']) \<and>
   body (SetMyCookie w) = body w \<and>
   status (SetMyCookie w) = status w \<and>
   wroteHeader (SetMyCookie w) = wroteHeader w \<and>
   sentHeader (SetMyCookie w) = sentHeader w"
  by (simp add: SetMyCookie_eq Header_Add_def Header_Values_def canon_keys Let_def
        split: option.splits)

section \<open>The generic handler, verified\<close>



text \<open>
  Claim C1 says that a request whose form does not parse gets status 500 and the error
  message instead of the dump. The handler does not return after \<open>http.Error\<close>: for
  \<open>GET /generic/x?a=%zz\<close> the status is 500, and the body is the error line followed by
  the whole dump. (That the parse failure is the only way to a status other than 200 is
  lemma \<open>generic_status\<close>.)
\<close>

theorem generic_parse_failure_is_followed_by_dump:
  "snd (ParseForm (GET ''/generic/x'' ''a=%zz'' [])) = Some (EscapeError ''%zz'') \<and>
   status (GenericHandler new_response (GET ''/generic/x'' ''a=%zz'' [])) = 500 \<and>
   body (GenericHandler new_response (GET ''/generic/x'' ''a=%zz'' [])) =
     ''error parsing url invalid URL escape '' @ [dq] @ ''%zz'' @ [dq, nl] @
     ''FooWebHandler says ... '' @ [nl] @
     '' request.Method     '' @ [sq] @ ''GET'' @ [sq, nl] @
     '' request.RequestURI '' @ [sq] @ ''/generic/x?a=%zz'' @ [sq, nl] @
     '' request.URL.Path   '' @ [sq] @ ''/generic/x'' @ [sq, nl] @
     '' request.Form       '' @ [sq] @ ''map[]'' @ [sq, nl] @
     '' request.Cookies()  '' @ [sq] @ ''[]'' @ [sq, nl]"
proof -
  have f: "fmt_Values [] = ''map[]''" and c: "fmt_Cookies [] = ''[]''"
    by code_simp+
  show ?thesis
    by (simp add: generic_status generic_failure_body [OF ParseForm_bad_escape]
          ParseForm_bad_escape Quote_bad_escape)
       (simp add: GET_def f c)
qed

section \<open>The home handler, verified\<close>

text \<open>
  Claim C8. When \<open>home.html\<close> can be read, every request gets status 200, the content type
  \<open>text/html; charset=utf-8\<close>, and a body that is the file's contents, byte for byte.
\<close>

theorem home_serves_the_file:
  assumes "fs ''home.html'' = Contents d"
  shows "status (HomeHandler fs new_response request) = 200 \<and>
         Header_Values (sentHeader (HomeHandler fs new_response request)) ''Content-Type'' =
           [''text/html; charset=utf-8''] \<and>
         body (HomeHandler fs new_response request) = d"
proof -
  have "ReadFile fs ''home.html'' = (d, None)"
    using assms by (simp add: ReadFile_def)
  then show ?thesis
    by (simp add: HomeHandler_ok Fprint_simps home_prologue_fields new_response_def
          home_prologue_def Header_Values_simps canon_keys)
qed

theorem home_serves_the_file_witness:
  "(\<lambda>name. Contents ''<html></html>'') ''home.html'' = Contents ''<html></html>'' \<and>
   status (HomeHandler (\<lambda>name. Contents ''<html></html>'') new_response (GET ''/home'' [] []))
     = 200 \<and>
   Header_Values
     (sentHeader (HomeHandler (\<lambda>name. Contents ''<html></html>'') new_response
                    (GET ''/home'' [] [])))
     ''Content-Type'' = [''text/html; charset=utf-8''] \<and>
   body (HomeHandler (\<lambda>name. Contents ''<html></html>'') new_response (GET ''/home'' [] []))
     = ''<html></html>''"
proof -
  have h: "(\<lambda>name. Contents ''<html></html>'') ''home.html'' = Contents ''<html></html>''"
    by simp
  show ?thesis
    using h home_serves_the_file [OF h, of "GET ''/home'' [] []"] by blast
qed



end
